theory Spec2Isabelle
  imports Main "HOL-Library.Sublist" "HOL-Library.Multiset"
begin

section \<open>The music playlist backend (backend/server.js)\<close>

text \<open>
  The backend is an Express application with four routes over two MongoDB stores: the
  collection of Song documents and the GridFS bucket \<open>uploads\<close> that holds the audio
  binaries. Each route is embedded as a function from the request, the stores and the
  values the environment supplies during the request (clock, generated identifiers,
  faults of the database) to the response, the stores afterwards and the console lines.

  Strings are lists of ASCII characters. The library calls the routes make
  (\<open>parseInt\<close>, \<open>String.startsWith\<close>, \<open>ObjectId.isValid\<close>, \<open>RegExp\<close>, the multer
  middleware, mongoose's \<open>save\<close>, \<open>find\<close>, \<open>sort\<close>, the GridFS bucket) are embedded with
  the behaviour their documentation gives them, restricted to what the routes use.
\<close>

subsection \<open>JavaScript values\<close>

text \<open>
  A field of \<open>req.body\<close>, \<open>req.query\<close> is a string or \<open>undefined\<close>. \<open>!v\<close> holds of
  \<open>undefined\<close> and of the empty string only: the string \<open>"0"\<close> is truthy.
\<close>

definition truthy :: "string option \<Rightarrow> bool" where
  "truthy v = (case v of None \<Rightarrow> False | Some s \<Rightarrow> s \<noteq> [])"

definition startsWith :: "string \<Rightarrow> string \<Rightarrow> bool" where
  "startsWith s p = prefix p s"

text \<open>
  \<open>parseInt(s)\<close> with no radix: leading white space is dropped, then an optional sign,
  then the prefix \<open>0x\<close> or \<open>0X\<close> selects radix 16, then the longest run of digits is
  read; with no digit the result is \<open>NaN\<close>. What follows the digits is ignored.

  The result is a JavaScript number, a double. The numbers \<open>parseInt\<close> returns are
  \<open>NaN\<close>, the two infinities, minus zero (for a minus sign before digits of value zero)
  and the doubles that are integers, which are represented by their integer value. The
  integer read is rounded to the nearest double, ties to even: \<open>excess_bits\<close> counts the bits
  beyond the 53 a double keeps, \<open>to_double\<close> rounds them away, and the result is
  infinite when the rounded value reaches \<open>2^1024\<close>. (This is what Node does for a
  digit string of any length; ECMAScript lets an engine approximate decimal strings of
  more than twenty digits.)
\<close>

datatype number = NaN | Num int | MinusZero | PosInfinity | NegInfinity

definition is_white_space :: "char \<Rightarrow> bool" where
  "is_white_space c = (of_char c \<in> {9, 10, 11, 12, 13, 32 :: nat})"

definition digit_value :: "nat \<Rightarrow> char \<Rightarrow> nat option" where
  "digit_value radix c =
     (let n = (of_char c :: nat);
          v = (if 48 \<le> n \<and> n \<le> 57 then Some (n - 48)
               else if 97 \<le> n \<and> n \<le> 122 then Some (n - 87)
               else if 65 \<le> n \<and> n \<le> 90 then Some (n - 55)
               else None)
      in case v of None \<Rightarrow> None | Some d \<Rightarrow> if d < radix then Some d else None)"

fun read_digits :: "nat \<Rightarrow> string \<Rightarrow> nat list" where
  "read_digits radix [] = []"
| "read_digits radix (c # cs) =
     (case digit_value radix c of None \<Rightarrow> [] | Some d \<Rightarrow> d # read_digits radix cs)"

definition digits_number :: "nat \<Rightarrow> nat list \<Rightarrow> nat" where
  "digits_number radix ds = foldl (\<lambda>acc d. acc * radix + d) 0 ds"

definition strip_sign :: "string \<Rightarrow> int \<times> string" where
  "strip_sign s =
     (case s of [] \<Rightarrow> (1, [])
      | c # cs \<Rightarrow> if c = CHR ''-'' then (- 1, cs) else if c = CHR ''+'' then (1, cs) else (1, s))"

definition strip_radix :: "string \<Rightarrow> nat \<times> string" where
  "strip_radix s = (if startsWith s ''0x'' \<or> startsWith s ''0X'' then (16, drop 2 s) else (10, s))"

function excess_bits :: "nat \<Rightarrow> nat" where
  "excess_bits n = (if n < 2 ^ 53 then 0 else Suc (excess_bits (n div 2)))"
  by pat_completeness auto
termination
  by (relation "measure id") auto

definition to_double :: "nat \<Rightarrow> nat option" where
  "to_double n =
     (let k = excess_bits n; q = n div 2 ^ k; r = n mod 2 ^ k;
          q' = (if 2 ^ k < 2 * r \<or> (2 * r = 2 ^ k \<and> odd q) then q + 1 else q);
          v = q' * 2 ^ k
      in if 2 ^ 1024 \<le> v then None else Some v)"

definition parseInt :: "string \<Rightarrow> number" where
  "parseInt s =
     (let (sign, s1) = strip_sign (dropWhile is_white_space s);
          (radix, s2) = strip_radix s1;
          ds = read_digits radix s2
      in if ds = [] then NaN
         else (case to_double (digits_number radix ds) of
                 None \<Rightarrow> if sign < 0 then NegInfinity else PosInfinity
               | Some v \<Rightarrow> if sign < 0 \<and> v = 0 then MinusZero else Num (sign * int v)))"

subsection \<open>Object ids\<close>

text \<open>
  An ObjectId is twelve bytes. \<open>ObjectId.isValid\<close> (bson 1.x to 4.x, the versions
  mongoose 5 and 6 load) accepts a string of twelve characters, which are the bytes,
  and a string of twenty-four hexadecimal digits, which encode them. \<open>findById\<close> casts
  the string the same way before it compares.
\<close>

type_synonym object_id = string

definition is_hex :: "char \<Rightarrow> bool" where
  "is_hex c = (digit_value 16 c \<noteq> None)"

definition ObjectId_isValid :: "string \<Rightarrow> bool" where
  "ObjectId_isValid s = (length s = 12 \<or> (length s = 24 \<and> list_all is_hex s))"

definition hex_value :: "char \<Rightarrow> nat" where
  "hex_value c = (case digit_value 16 c of None \<Rightarrow> 0 | Some d \<Rightarrow> d)"

fun from_hex :: "string \<Rightarrow> string" where
  "from_hex (a # b # cs) = char_of (hex_value a * 16 + hex_value b) # from_hex cs"
| "from_hex cs = []"

definition ObjectId_cast :: "string \<Rightarrow> object_id" where
  "ObjectId_cast s = (if length s = 24 \<and> list_all is_hex s then from_hex s else s)"

subsection \<open>The stores\<close>

text \<open>
  The Song schema: \<open>title\<close>, \<open>artist\<close>, \<open>duration\<close> (a Number) required, \<open>songcode\<close>
  required and unique, \<open>album\<close> with a default, \<open>fileId\<close> optional, \<open>createdAt\<close> a date
  (milliseconds).
  The collection is kept in insertion order. The bucket maps the id of a stored file to
  its chunks.
\<close>

record song =
  song_id :: object_id
  title :: string
  artist :: string
  songcode :: string
  album :: string
  duration :: number
  fileId :: "object_id option"
  createdAt :: nat

record db =
  songs :: "song list"
  uploads :: "object_id \<rightharpoonup> string list"

text \<open>
  What the environment decides during one request: the clock, the ids the drivers draw,
  the values of successive calls of \<open>shortid.generate()\<close>, whether the k-th operation
  on the Song collection is rejected by the driver, whether the bucket is unavailable
  for writing and deleting, the chunk at which reading a stored file breaks, the
  verdict of the regular expression engine on a pattern outside the modelled fragment,
  and the rank by which the server orders documents whose sort keys are equal.
\<close>

datatype regexp_error = SyntaxError

record env =
  now :: nat
  fresh_file_id :: object_id
  fresh_song_id :: object_id
  shortid_generate :: "nat \<Rightarrow> string"
  db_error :: "nat \<Rightarrow> bool"
  gfs_error :: bool
  read_error :: "nat option"
  regexp_engine :: "string \<Rightarrow> regexp_error + (string \<Rightarrow> bool)"
  tie_rank :: "song \<Rightarrow> nat"

subsection \<open>Responses\<close>

datatype json =
    ErrorJson string
  | MessageJson string
  | SongsJson "song list"
  | UploadJson string song object_id

text \<open>
  The Express response object: the status code (200 until set), whether the head has
  gone out, the JSON body if one was sent, the chunks written by a pipe, and whether the
  response was ended. \<open>res.status(c).json(j)\<close> sets the code, sends head and body and
  ends the response. The header fields the stream route sets are not represented.
\<close>

record response =
  statusCode :: nat
  headersSent :: bool
  json_body :: "json option"
  written :: "string list"
  finished :: bool

definition new_response :: response where
  "new_response = \<lparr>statusCode = 200, headersSent = False, json_body = None, written = [],
                   finished = False\<rparr>"

definition status_json :: "response \<Rightarrow> nat \<Rightarrow> json \<Rightarrow> response" where
  "status_json r code j = r\<lparr>statusCode := code, headersSent := True, json_body := Some j,
                            finished := True\<rparr>"

record outcome =
  res :: response
  db_after :: db
  console :: "string list"

definition reply :: "nat \<Rightarrow> json \<Rightarrow> db \<Rightarrow> string list \<Rightarrow> outcome" where
  "reply code j d lg = \<lparr>res = status_json new_response code j, db_after = d, console = lg\<rparr>"

text \<open>The error-handling middleware, registered last: every error passed on gives 500.\<close>

definition error_middleware :: "db \<Rightarrow> outcome" where
  "error_middleware d = reply 500 (ErrorJson ''Something went wrong!'') d [''Error:'']"

subsection \<open>Upload: multer with the GridFS storage engine, then the route\<close>

record upload_file =
  mimetype :: string
  originalname :: string
  file_chunks :: "string list"

definition file_size :: "upload_file \<Rightarrow> nat" where
  "file_size f = sum_list (map length (file_chunks f))"

definition fileFilter :: "upload_file \<Rightarrow> bool" where
  "fileFilter f = startsWith (mimetype f) ''audio/''"

datatype multer_error = OnlyAudioAllowed | LIMIT_FILE_SIZE | StorageFailed

text \<open>
  \<open>upload.single('audioFile')\<close>: with no file part the route runs without \<open>req.file\<close>.
  A file the filter refuses, one over the size limit (multer removes what was written)
  and a failing write each pass an error on; otherwise the file is in the bucket under
  a fresh id when the route runs.
\<close>

definition upload_single :: "env \<Rightarrow> db \<Rightarrow> upload_file option \<Rightarrow> multer_error + (object_id option \<times> db)" where
  "upload_single e d fo =
     (case fo of
        None \<Rightarrow> Inr (None, d)
      | Some f \<Rightarrow>
          if \<not> fileFilter f then Inl OnlyAudioAllowed
          else if 50 * 1024 * 1024 < file_size f then Inl LIMIT_FILE_SIZE
          else if gfs_error e \<or> uploads d (fresh_file_id e) \<noteq> None then Inl StorageFailed
          else Inr (Some (fresh_file_id e),
                    d\<lparr>uploads := (uploads d)(fresh_file_id e \<mapsto> file_chunks f)\<rparr>))"

record upload_body =
  body_title :: "string option"
  body_artist :: "string option"
  body_album :: "string option"
  body_duration :: "string option"

datatype save_error = ValidationError | DuplicateKey | DriverError

definition error_code :: "save_error \<Rightarrow> nat option" where
  "error_code err = (case err of DuplicateKey \<Rightarrow> Some 11000 | _ \<Rightarrow> None)"

text \<open>
  \<open>new Song({...})\<close> followed by \<open>song.save()\<close>. The document takes its \<open>songcode\<close> from
  the first call of the generator and \<open>createdAt\<close> from the clock. Validation refuses a
  duration that is \<open>NaN\<close> (the cast to Number fails) and no other number; the insert is
  refused with code
  11000 when \<open>_id\<close> or \<open>songcode\<close> is already in the collection. A new document goes
  to the end of the collection. The 500 reply of the route carries the message of the
  error after its fixed text; the message is left out here.
\<close>

definition new_Song :: "env \<Rightarrow> string \<Rightarrow> string \<Rightarrow> string \<Rightarrow> number \<Rightarrow> object_id \<Rightarrow> song" where
  "new_Song e t a al dur fid =
     \<lparr>song_id = fresh_song_id e, title = t, artist = a, songcode = shortid_generate e 0,
      album = al, duration = dur, fileId = Some fid, createdAt = now e\<rparr>"

definition Song_save :: "env \<Rightarrow> db \<Rightarrow> string \<Rightarrow> string \<Rightarrow> string \<Rightarrow> number \<Rightarrow> object_id
    \<Rightarrow> save_error + (song \<times> db)" where
  "Song_save e d t a al dur fid =
     (if dur = NaN then Inl ValidationError
      else
        let s = new_Song e t a al dur fid in
        if db_error e 0 then Inl DriverError
        else if song_id s \<in> song_id ` set (songs d) \<or> songcode s \<in> songcode ` set (songs d)
          then Inl DuplicateKey
        else Inr (s, d\<lparr>songs := songs d @ [s]\<rparr>))"

definition upload_route :: "env \<Rightarrow> db \<Rightarrow> object_id option \<Rightarrow> upload_body \<Rightarrow> outcome" where
  "upload_route e d req_file b =
     (case req_file of
        None \<Rightarrow> reply 400 (ErrorJson ''No file uploaded'') d []
      | Some fid \<Rightarrow>
          if \<not> truthy (body_title b) \<or> \<not> truthy (body_artist b) \<or> \<not> truthy (body_duration b)
          then reply 400 (ErrorJson ''Missing required fields: title, artist, duration'') d []
          else
            (case Song_save e d (the (body_title b)) (the (body_artist b))
                    (if truthy (body_album b) then the (body_album b) else ''Unknown Album'')
                    (parseInt (the (body_duration b))) fid of
               Inr (s, d') \<Rightarrow>
                 reply 200 (UploadJson ''Song uploaded successfully!'' s fid) d'
                   [''Song uploaded successfully:'']
             | Inl err \<Rightarrow>
                 if error_code err = Some 11000
                 then reply 400 (ErrorJson ''Song with this code already exists'') d
                        [''Upload error:'']
                 else reply 500 (ErrorJson ''Error uploading song: '') d [''Upload error:'']))"

definition post_upload :: "env \<Rightarrow> db \<Rightarrow> upload_file option \<Rightarrow> upload_body \<Rightarrow> outcome" where
  "post_upload e d fo b =
     (case upload_single e d fo of
        Inl err \<Rightarrow> error_middleware d
      | Inr (req_file, d') \<Rightarrow> upload_route e d' req_file b)"

subsection \<open>Listing: \<open>new RegExp(search, 'i')\<close>, \<open>find\<close>, \<open>sort\<close>\<close>

text \<open>
  The syntax characters of a pattern. Every other printable character stands for
  itself, and a backslash before a syntax character makes it stand for itself. A pattern
  made of these two forms only is in the modelled fragment, and \<open>pattern_text\<close> is the
  text it matches; every other pattern is left to \<open>regexp_engine\<close>.
\<close>

definition syntax_char :: "char \<Rightarrow> bool" where
  "syntax_char c = (c \<in> set ''^$.*+?()[]{}|'' \<or> c = CHR 0x5C)"

definition literal_char :: "char \<Rightarrow> bool" where
  "literal_char c = (32 \<le> (of_char c :: nat) \<and> (of_char c :: nat) \<le> 126 \<and> \<not> syntax_char c)"

fun pattern_text :: "string \<Rightarrow> string option" where
  "pattern_text [] = Some []"
| "pattern_text (c # cs) =
     (if literal_char c then map_option ((#) c) (pattern_text cs)
      else if c = CHR 0x5C then
        (case cs of
           [] \<Rightarrow> None
         | x # xs \<Rightarrow> if syntax_char x then map_option ((#) x) (pattern_text xs) else None)
      else None)"

text \<open>
  Matching with flag \<open>i\<close>: letters are compared after folding case. The search tries
  each start position of the subject in turn.
\<close>

definition upper_case :: "char \<Rightarrow> char" where
  "upper_case c = (if 97 \<le> (of_char c :: nat) \<and> (of_char c :: nat) \<le> 122
                   then char_of ((of_char c :: nat) - 32) else c)"

fun match_here :: "string \<Rightarrow> string \<Rightarrow> bool" where
  "match_here [] t = True"
| "match_here (p # ps) [] = False"
| "match_here (p # ps) (c # cs) = (upper_case p = upper_case c \<and> match_here ps cs)"

fun match_anywhere :: "string \<Rightarrow> string \<Rightarrow> bool" where
  "match_anywhere p [] = match_here p []"
| "match_anywhere p (c # cs) = (match_here p (c # cs) \<or> match_anywhere p cs)"

definition RegExp_new :: "env \<Rightarrow> string \<Rightarrow> regexp_error + (string \<Rightarrow> bool)" where
  "RegExp_new e pat =
     (case pattern_text pat of
        Some p \<Rightarrow> Inr (match_anywhere p)
      | None \<Rightarrow> regexp_engine e pat)"

text \<open>
  The filter document: empty when \<open>search\<close> is falsy, otherwise \<open>$or\<close> of the three
  fields against the same expression. Building the expression may throw.
\<close>

definition songs_filter :: "env \<Rightarrow> string option \<Rightarrow> regexp_error + (song \<Rightarrow> bool)" where
  "songs_filter e search =
     (if truthy search then
        (case RegExp_new e (the search) of
           Inl err \<Rightarrow> Inl err
         | Inr test \<Rightarrow> Inr (\<lambda>s. test (title s) \<or> test (artist s) \<or> test (album s)))
      else Inr (\<lambda>s. True))"

text \<open>
  \<open>sort({createdAt: -1})\<close>: the documents come by descending key. The route names no
  second key, and MongoDB leaves the order of documents with equal keys to the server:
  here they come by the rank the environment gives them.
\<close>

definition sort_createdAt_desc :: "env \<Rightarrow> song list \<Rightarrow> song list" where
  "sort_createdAt_desc e xs = sort_key (\<lambda>s. - int (createdAt s)) (sort_key (tie_rank e) xs)"

definition get_songs :: "env \<Rightarrow> db \<Rightarrow> string option \<Rightarrow> outcome" where
  "get_songs e d search =
     (case songs_filter e search of
        Inl err \<Rightarrow> reply 500 (ErrorJson ''Server error'') d [''Error fetching songs:'']
      | Inr f \<Rightarrow>
          if db_error e 0 then reply 500 (ErrorJson ''Server error'') d [''Error fetching songs:'']
          else reply 200 (SongsJson (sort_createdAt_desc e (filter f (songs d)))) d [])"

text \<open>
  The case-insensitive substring relation in the words of the specification, to
  compare the filter with.
\<close>

definition ci_substring :: "string \<Rightarrow> string \<Rightarrow> bool" where
  "ci_substring s t = sublist (map upper_case s) (map upper_case t)"

definition spec_matches :: "string \<Rightarrow> song \<Rightarrow> bool" where
  "spec_matches s x = (ci_substring s (title x) \<or> ci_substring s (artist x) \<or> ci_substring s (album x))"

subsection \<open>Streaming\<close>

datatype gfs_failure = FileNotFound | ReadFailed | BucketUnavailable

datatype stream_event = Data string | End | Error gfs_failure

text \<open>
  \<open>gfs.openDownloadStream(id)\<close>: an unknown id fails at the first read; otherwise the
  chunks come in order and then the end, unless reading breaks at chunk \<open>read_error\<close>.
\<close>

definition openDownloadStream :: "env \<Rightarrow> db \<Rightarrow> object_id \<Rightarrow> stream_event list" where
  "openDownloadStream e d fid =
     (case uploads d fid of
        None \<Rightarrow> [Error FileNotFound]
      | Some cs \<Rightarrow>
          (case read_error e of
             None \<Rightarrow> map Data cs @ [End]
           | Some n \<Rightarrow> if n < length cs then map Data (take n cs) @ [Error ReadFailed]
                       else map Data cs @ [End]))"

text \<open>
  \<open>downloadStream.pipe(res)\<close> with the route's \<open>error\<close> listener. The first write sends
  the head with the status code set so far; the end of the source ends the response; an
  error of the source reaches the listener only, which answers 404 when the head has
  not gone out and does nothing otherwise (a pipe does not end its destination when
  the source fails). Nothing is written to a response that was ended. The bucket handle
  \<open>gfs\<close> is set when the connection opens, which has happened before a request.
\<close>

fun on_event :: "stream_event \<Rightarrow> response \<times> string list \<Rightarrow> response \<times> string list" where
  "on_event (Data c) (r, lg) =
     (if finished r then (r, lg) else (r\<lparr>headersSent := True, written := written r @ [c]\<rparr>, lg))"
| "on_event End (r, lg) =
     (if finished r then (r, lg) else (r\<lparr>headersSent := True, finished := True\<rparr>, lg))"
| "on_event (Error err) (r, lg) =
     (if \<not> headersSent r
      then (status_json r 404 (ErrorJson ''Audio file not found''), lg @ [''Streaming error:''])
      else (r, lg @ [''Streaming error:'']))"

definition pipe :: "stream_event list \<Rightarrow> response \<times> string list \<Rightarrow> response \<times> string list" where
  "pipe evs start = foldl (\<lambda>acc ev. on_event ev acc) start evs"

definition findById :: "song list \<Rightarrow> string \<Rightarrow> song option" where
  "findById xs sid = find (\<lambda>s. song_id s = ObjectId_cast sid) xs"

definition get_audio :: "env \<Rightarrow> db \<Rightarrow> string \<Rightarrow> outcome" where
  "get_audio e d songId =
     (if \<not> ObjectId_isValid songId then reply 400 (ErrorJson ''Invalid song ID'') d []
      else if db_error e 0
        then reply 500 (ErrorJson ''Server error'') d [''Error streaming audio:'']
      else
        (case findById (songs d) songId of
           None \<Rightarrow> reply 404 (ErrorJson ''Song or audio file not found'') d []
         | Some s \<Rightarrow>
             (case fileId s of
                None \<Rightarrow> reply 404 (ErrorJson ''Song or audio file not found'') d []
              | Some fid \<Rightarrow>
                  (let (r, lg) = pipe (openDownloadStream e d fid) (new_response, [])
                   in \<lparr>res = r, db_after = d, console = lg\<rparr>))))"

subsection \<open>Deleting\<close>

text \<open>
  \<open>gfs.delete(id)\<close> removes the file and fails when the bucket is unavailable or holds
  no file of that id. \<open>findByIdAndDelete\<close> removes the first document of that id.
\<close>

definition gfs_delete :: "env \<Rightarrow> db \<Rightarrow> object_id \<Rightarrow> gfs_failure + db" where
  "gfs_delete e d fid =
     (if gfs_error e then Inl BucketUnavailable
      else if uploads d fid = None then Inl FileNotFound
      else Inr (d\<lparr>uploads := (uploads d)(fid := None)\<rparr>))"

definition findByIdAndDelete :: "song list \<Rightarrow> string \<Rightarrow> song list" where
  "findByIdAndDelete xs sid =
     (case findById xs sid of None \<Rightarrow> xs | Some s \<Rightarrow> remove1 s xs)"

definition delete_song :: "env \<Rightarrow> db \<Rightarrow> string \<Rightarrow> outcome" where
  "delete_song e d songId =
     (if \<not> ObjectId_isValid songId then reply 400 (ErrorJson ''Invalid song ID'') d []
      else if db_error e 0 then reply 500 (ErrorJson ''Server error'') d [''Error deleting song:'']
      else
        (case findById (songs d) songId of
           None \<Rightarrow> reply 404 (ErrorJson ''Song not found'') d []
         | Some s \<Rightarrow>
             (let (d1, lg) =
                    (case fileId s of
                       None \<Rightarrow> (d, [])
                     | Some fid \<Rightarrow>
                         (case gfs_delete e d fid of
                            Inl err \<Rightarrow> (d, [''Error deleting file from GridFS:''])
                          | Inr d' \<Rightarrow> (d', [])))
              in if db_error e 1
                 then reply 500 (ErrorJson ''Server error'') d1 (lg @ [''Error deleting song:''])
                 else reply 200 (MessageJson ''Song deleted successfully'')
                        (d1\<lparr>songs := findByIdAndDelete (songs d1) songId\<rparr>)
                        (lg @ [''Song deleted:'']))))"

subsection \<open>A small catalogue to evaluate the routes on\<close>

text \<open>
  In \<open>example_db\<close> one song is stored; the next upload draws the short code that song
  already has, and would draw a free one on a second call.
\<close>

definition example_song :: song where
  "example_song = \<lparr>song_id = ''song00000001'', title = ''Blue Moon'', artist = ''Miles'',
     songcode = ''dup'', album = ''Unknown Album'', duration = Num 65,
     fileId = Some ''file00000001'', createdAt = 1000\<rparr>"

definition example_song2 :: song where
  "example_song2 = \<lparr>song_id = ''song00000003'', title = ''Mr. Night'', artist = ''Ella'',
     songcode = ''ngt'', album = ''Live'', duration = Num 301,
     fileId = Some ''file00000003'', createdAt = 2000\<rparr>"

definition example_song3 :: song where
  "example_song3 = \<lparr>song_id = ''song00000004'', title = ''Sun'', artist = ''Blue Note Quartet'',
     songcode = ''sun'', album = ''Unknown Album'', duration = Num 59,
     fileId = None, createdAt = 3000\<rparr>"

text \<open>A catalogue of three songs, inserted in this order at increasing times; the file of the
  second is no longer in the bucket and the third has no file.\<close>

definition example_catalogue :: db where
  "example_catalogue = \<lparr>songs = [example_song, example_song2, example_song3],
     uploads = [''file00000001'' \<mapsto> [''ID3'', ''data'']]\<rparr>"

text \<open>
  Two songs created in the same millisecond, and a server that ranks the second of them
  before the first.
\<close>

definition example_twin :: song where
  "example_twin = \<lparr>song_id = ''song00000005'', title = ''Twin'', artist = ''Ella'',
     songcode = ''twn'', album = ''Live'', duration = Num 120,
     fileId = None, createdAt = 1000\<rparr>"

definition example_ties :: db where
  "example_ties = \<lparr>songs = [example_song, example_twin], uploads = Map.empty\<rparr>"

definition example_db :: db where
  "example_db = \<lparr>songs = [example_song], uploads = [''file00000001'' \<mapsto> [''ID3'', ''data'']]\<rparr>"

definition example_env :: env where
  "example_env = \<lparr>now = 2000, fresh_file_id = ''file00000002'', fresh_song_id = ''song00000002'',
     shortid_generate = (\<lambda>k. if k = 0 then ''dup'' else ''new''), db_error = (\<lambda>k. False),
     gfs_error = False, read_error = None, regexp_engine = (\<lambda>p. Inl SyntaxError),
     tie_rank = (\<lambda>s. 0)\<rparr>"

definition example_file :: upload_file where
  "example_file = \<lparr>mimetype = ''audio/mpeg'', originalname = ''sun.mp3'',
     file_chunks = [''ID3'', ''more'']\<rparr>"

definition example_ranking :: env where
  "example_ranking = example_env\<lparr>tie_rank := (\<lambda>s. if song_id s = ''song00000005'' then 0 else 1)\<rparr>"

definition example_body :: upload_body where
  "example_body = \<lparr>body_title = Some ''Sun'', body_artist = Some ''Blue Note Quartet'',
     body_album = None, body_duration = Some ''0''\<rparr>"

section \<open>Properties of the routes\<close>

subsection \<open>Replies\<close>

lemma status_reply [simp]: "statusCode (res (reply c j d lg)) = c"
  by (simp add: reply_def status_json_def)

lemma db_after_reply [simp]: "db_after (reply c j d lg) = d"
  by (simp add: reply_def)

lemma console_reply [simp]: "console (reply c j d lg) = lg"
  by (simp add: reply_def)

lemma json_reply [simp]: "json_body (res (reply c j d lg)) = Some j"
  by (simp add: reply_def status_json_def)

lemma written_reply [simp]: "written (res (reply c j d lg)) = []"
  by (simp add: reply_def status_json_def new_response_def)

subsection \<open>Numbers\<close>

declare excess_bits.simps [simp del]

lemma to_double_exact:
  assumes "n < 2 ^ 53"
  shows "to_double n = Some n"
proof -
  from assms have "excess_bits n = 0"
    by (simp add: excess_bits.simps)
  moreover have "(2::nat) ^ 53 < 2 ^ 1024"
    by simp
  ultimately show ?thesis
    using assms by (simp add: to_double_def Let_def)
qed

lemmas parseInt_unfold = parseInt_def strip_sign_def strip_radix_def startsWith_def
  digit_value_def digits_number_def is_white_space_def Let_def
















subsection \<open>The examples, evaluated\<close>

lemma example_upload_single:
  "upload_single example_env example_db (Some example_file) =
     Inr (Some ''file00000002'',
          example_db\<lparr>uploads := (uploads example_db)(''file00000002'' \<mapsto> [''ID3'', ''more''])\<rparr>)"
  by (simp add: upload_single_def example_env_def example_db_def example_file_def fileFilter_def
      startsWith_def file_size_def)


lemma parseInt_zero: "parseInt ''0'' = Num 0"
  by (simp add: parseInt_unfold to_double_exact)


lemma parseInt_minus_zero: "parseInt ''-0'' = MinusZero"
  by (simp add: parseInt_unfold to_double_exact)



lemma example_post_upload:
  "post_upload example_env example_db (Some example_file) example_body =
     reply 400 (ErrorJson ''Song with this code already exists'')
       (example_db\<lparr>uploads := (uploads example_db)(''file00000002'' \<mapsto> [''ID3'', ''more''])\<rparr>)
       [''Upload error:'']"
  by (simp add: post_upload_def example_upload_single)
     (simp add: upload_route_def example_body_def truthy_def parseInt_zero Song_save_def
        new_Song_def error_code_def example_env_def example_db_def example_song_def)

lemma example_up: "\<not> db_error example_env 0" "\<not> db_error example_env 1"
  by (simp_all add: example_env_def)

lemma example_ids:
  "ObjectId_isValid ''song00000009''" "ObjectId_isValid ''song00000004''"
  "ObjectId_isValid ''song00000003''" "ObjectId_isValid ''song00000001''" "\<not> ObjectId_isValid ''42''"
  "ObjectId_cast ''song00000009'' = ''song00000009''"
  "ObjectId_cast ''song00000004'' = ''song00000004''"
  "ObjectId_cast ''song00000003'' = ''song00000003''"
  "ObjectId_cast ''song00000001'' = ''song00000001''"
  by (simp_all add: ObjectId_isValid_def ObjectId_cast_def)

lemma example_findById:
  "findById (songs example_catalogue) ''song00000004'' = Some example_song3"
  "findById (songs example_catalogue) ''song00000003'' = Some example_song2"
  "findById (songs example_catalogue) ''song00000001'' = Some example_song"
  by (simp_all add: findById_def example_ids example_catalogue_def example_song_def
      example_song2_def example_song3_def)

subsection \<open>Upload\<close>

lemma upload_single_stored:
  assumes "upload_single e d (Some f) = Inr (Some fid, d1)"
  shows "uploads d fid = None" and "songs d1 = songs d"
    and "uploads d1 = (uploads d)(fid \<mapsto> file_chunks f)"
  using assms by (auto simp: upload_single_def split: if_splits)


lemma upload_route_failed:
  assumes "statusCode (res (upload_route e d1 rf b)) \<noteq> 200"
  shows "db_after (upload_route e d1 rf b) = d1"
  using assms
  by (auto simp: upload_route_def split: option.splits sum.splits if_splits)

text \<open>
  Claim C1, as the route has it. When an upload fails after multer has stored the
  binary (missing fields, a duration that is not a number, a duplicate key, a driver
  error), the Song collection is as before, and nothing is rolled back: the bucket is
  the one before the request plus the object just stored.
\<close>

theorem failed_upload_keeps_object:
  assumes stored: "upload_single e d (Some f) = Inr (Some fid, d1)"
      and failed: "statusCode (res (post_upload e d (Some f) b)) \<noteq> 200"
  shows "songs (db_after (post_upload e d (Some f) b)) = songs d \<and>
         uploads d fid = None \<and>
         uploads (db_after (post_upload e d (Some f) b)) = (uploads d)(fid \<mapsto> file_chunks f)"
proof -
  have run: "post_upload e d (Some f) b = upload_route e d1 (Some fid) b"
    using stored by (simp add: post_upload_def)
  with failed have "db_after (post_upload e d (Some f) b) = d1"
    by (simp add: upload_route_failed)
  with upload_single_stored [OF stored] show ?thesis
    by simp
qed

text \<open>
  C1 on the example: the short code collides, the reply is 400, the collection still
  holds one song and the bucket holds two objects.
\<close>

theorem failed_upload_keeps_object_witness:
  "statusCode (res (post_upload example_env example_db (Some example_file) example_body)) = 400 \<and>
   songs (db_after (post_upload example_env example_db (Some example_file) example_body)) =
     [example_song] \<and>
   uploads (db_after (post_upload example_env example_db (Some example_file) example_body)) =
     [''file00000001'' \<mapsto> [''ID3'', ''data''], ''file00000002'' \<mapsto> [''ID3'', ''more'']]"
proof -
  have failed: "statusCode (res (post_upload example_env example_db (Some example_file) example_body)) \<noteq> 200"
    by (simp add: example_post_upload)
  show ?thesis
    using failed_upload_keeps_object [OF example_upload_single failed]
    by (simp add: example_post_upload) (simp add: example_db_def example_file_def)
qed

text \<open>
  Claim C1 as stated fails: after the duplicate short code is refused with 400, the
  object stored for this request, absent before, is in the bucket.
\<close>

theorem rollback_counterexample:
  "statusCode (res (post_upload example_env example_db (Some example_file) example_body)) = 400 \<and>
   uploads example_db ''file00000002'' = None \<and>
   uploads (db_after (post_upload example_env example_db (Some example_file) example_body))
     ''file00000002'' = Some [''ID3'', ''more'']"
  by (simp add: example_post_upload) (simp add: example_db_def)

text \<open>
  Claim C2, as the route has it. A file whose declared content type does not start with
  \<open>audio/\<close> is refused by the file filter; the error goes to the error-handling
  middleware, which answers 500, and neither store changes.
\<close>

theorem wrong_media_type_is_500:
  assumes "\<not> startsWith (mimetype f) ''audio/''"
  shows "statusCode (res (post_upload e d (Some f) b)) = 500 \<and>
         json_body (res (post_upload e d (Some f) b)) = Some (ErrorJson ''Something went wrong!'') \<and>
         db_after (post_upload e d (Some f) b) = d"
  using assms
  by (simp add: post_upload_def upload_single_def fileFilter_def error_middleware_def)

text \<open>C2 on an \<open>image/png\<close> upload.\<close>

theorem wrong_media_type_is_500_witness:
  "\<not> startsWith (mimetype (example_file\<lparr>mimetype := ''image/png''\<rparr>)) ''audio/'' \<and>
   statusCode (res (post_upload example_env example_db
     (Some (example_file\<lparr>mimetype := ''image/png''\<rparr>)) example_body)) = 500"
proof -
  have h: "\<not> startsWith (mimetype (example_file\<lparr>mimetype := ''image/png''\<rparr>)) ''audio/''"
    by (simp add: startsWith_def)
  from wrong_media_type_is_500 [OF h] show ?thesis
    using h by simp
qed

text \<open>Claim C2 as stated fails: a \<open>video/mp4\<close> upload is not answered with 400.\<close>

theorem media_type_400_counterexample:
  "\<not> startsWith (mimetype (example_file\<lparr>mimetype := ''video/mp4''\<rparr>)) ''audio/'' \<and>
   statusCode (res (post_upload example_env example_db
     (Some (example_file\<lparr>mimetype := ''video/mp4''\<rparr>)) example_body)) \<noteq> 400"
  by (simp add: startsWith_def post_upload_def upload_single_def fileFilter_def error_middleware_def)

text \<open>
  Claim C3, as the route has it. The short code is drawn once. When it is the code of a
  stored song, the upload (file stored, fields present, duration a number, the driver
  up) fails at once with 400 and the collection is as before, whatever a further call
  of the generator would return.
\<close>

theorem duplicate_code_fails_at_once:
  assumes stored: "upload_single e d (Some f) = Inr (Some fid, d1)"
      and fields: "truthy (body_title b)" "truthy (body_artist b)" "truthy (body_duration b)"
      and number: "parseInt (the (body_duration b)) \<noteq> NaN"
      and up: "\<not> db_error e 0"
      and collision: "shortid_generate e 0 \<in> songcode ` set (songs d)"
  shows "statusCode (res (post_upload e d (Some f) b)) = 400 \<and>
         json_body (res (post_upload e d (Some f) b)) =
           Some (ErrorJson ''Song with this code already exists'') \<and>
         songs (db_after (post_upload e d (Some f) b)) = songs d"
proof -
  have same: "songs d1 = songs d"
    using upload_single_stored(2) [OF stored] .
  have "Song_save e d1 (the (body_title b)) (the (body_artist b))
          (if truthy (body_album b) then the (body_album b) else ''Unknown Album'')
          (parseInt (the (body_duration b))) fid = Inl DuplicateKey"
    using up collision number by (simp add: Song_save_def new_Song_def same Let_def)
  then have "post_upload e d (Some f) b =
      reply 400 (ErrorJson ''Song with this code already exists'') d1 [''Upload error:'']"
    using stored fields by (simp add: post_upload_def upload_route_def error_code_def)
  then show ?thesis
    by (simp add: same)
qed

text \<open>C3 on the example, where the generator first returns the stored code.\<close>

theorem duplicate_code_fails_at_once_witness:
  "shortid_generate example_env 0 \<in> songcode ` set (songs example_db) \<and>
   statusCode (res (post_upload example_env example_db (Some example_file) example_body)) = 400 \<and>
   songs (db_after (post_upload example_env example_db (Some example_file) example_body)) =
     songs example_db"
proof -
  have fields: "truthy (body_title example_body)" "truthy (body_artist example_body)"
      "truthy (body_duration example_body)"
    by (simp_all add: example_body_def truthy_def)
  have number: "parseInt (the (body_duration example_body)) \<noteq> NaN"
    by (simp add: example_body_def parseInt_zero)
  have collision: "shortid_generate example_env 0 \<in> songcode ` set (songs example_db)"
    by (simp add: example_env_def example_db_def example_song_def)
  from duplicate_code_fails_at_once [OF example_upload_single fields number example_up(1) collision]
  show ?thesis
    using collision by simp
qed

text \<open>
  Claim C3 as stated fails: the first code collides, the second call of the generator
  would give a free code, and the upload is answered with 400.
\<close>

theorem retry_counterexample:
  "shortid_generate example_env 0 \<in> songcode ` set (songs example_db) \<and>
   shortid_generate example_env 1 \<notin> songcode ` set (songs example_db) \<and>
   statusCode (res (post_upload example_env example_db (Some example_file) example_body)) = 400 \<and>
   json_body (res (post_upload example_env example_db (Some example_file) example_body)) =
     Some (ErrorJson ''Song with this code already exists'')"
  by (simp add: example_post_upload) (simp add: example_env_def example_db_def example_song_def)

subsection \<open>The duration of a stored song\<close>






lemma gfs_delete_songs:
  assumes "gfs_delete e d fid = Inr d1"
  shows "songs d1 = songs d"
  using assms by (auto simp: gfs_delete_def split: if_splits)









subsection \<open>Listing and search\<close>

lemma pattern_text_literal:
  assumes "\<forall>c\<in>set s. literal_char c"
  shows "pattern_text s = Some s"
  using assms by (induction s) simp_all

lemma match_here_prefix:
  "match_here p t \<longleftrightarrow> prefix (map upper_case p) (map upper_case t)"
  by (induction p t rule: match_here.induct) simp_all

lemma match_anywhere_sublist:
  "match_anywhere p t \<longleftrightarrow> sublist (map upper_case p) (map upper_case t)"
proof (induction t)
  case Nil
  show ?case by (cases p) simp_all
next
  case (Cons c cs)
  have "match_anywhere p (c # cs) \<longleftrightarrow> match_here p (c # cs) \<or> match_anywhere p cs"
    by simp
  also have "\<dots> \<longleftrightarrow> prefix (map upper_case p) (map upper_case (c # cs)) \<or>
      sublist (map upper_case p) (map upper_case cs)"
    by (simp only: match_here_prefix Cons.IH)
  also have "\<dots> \<longleftrightarrow> sublist (map upper_case p) (map upper_case (c # cs))"
    by (simp add: sublist_Cons_right)
  finally show ?case .
qed

lemma songs_filter_literal:
  assumes "s \<noteq> []" and "\<forall>c\<in>set s. literal_char c"
  shows "songs_filter e (Some s) = Inr (spec_matches s)"
proof -
  have "RegExp_new e s = Inr (match_anywhere s)"
    by (simp add: RegExp_new_def pattern_text_literal [OF assms(2)])
  moreover have "(\<lambda>x. match_anywhere s (title x) \<or> match_anywhere s (artist x) \<or>
      match_anywhere s (album x)) = spec_matches s"
    by (rule ext) (simp add: spec_matches_def ci_substring_def match_anywhere_sublist)
  ultimately show ?thesis
    using assms(1) by (simp add: songs_filter_def truthy_def)
qed

lemma sorted_sort_createdAt_desc:
  "sorted_wrt (\<lambda>a b. createdAt b \<le> createdAt a) (sort_createdAt_desc e xs)"
proof -
  have "sorted (map (\<lambda>s. - int (createdAt s)) (sort_createdAt_desc e xs))"
    unfolding sort_createdAt_desc_def by (rule sorted_sort_key)
  then show ?thesis
    by (simp add: sorted_map)
qed

lemma mset_sort_createdAt_desc: "mset (sort_createdAt_desc e xs) = mset xs"
  by (simp add: sort_createdAt_desc_def)

lemma set_sort_createdAt_desc: "set (sort_createdAt_desc e xs) = set xs"
  by (simp add: sort_createdAt_desc_def)

text \<open>
  A list sorted by descending creation time is determined by its elements when their
  creation times are distinct.
\<close>

lemma newest_first_unique:
  assumes perm: "mset out = mset xs"
      and desc: "sorted_wrt (\<lambda>a b. createdAt b \<le> createdAt a) out"
      and dist: "distinct (map createdAt xs)"
  shows "out = rev (sort_key createdAt xs)"
proof -
  have set_eq: "set out = set xs"
    using perm by (rule mset_eq_setD)
  have "mset (map createdAt out) = mset (map createdAt xs)"
    using perm by simp
  then have dist_out: "distinct (map createdAt out)"
    using dist by (metis mset_eq_imp_distinct_iff)
  have "sorted (map createdAt (rev out))"
    using desc by (simp add: sorted_map sorted_wrt_rev)
  moreover have "distinct (map createdAt (rev out))"
    using dist_out by (simp add: rev_map [symmetric])
  moreover have "sorted (map createdAt (sort_key createdAt xs))"
    by (rule sorted_sort_key)
  moreover have "distinct (map createdAt (sort_key createdAt xs))"
    using dist by (simp add: distinct_map)
  moreover have "set (map createdAt (rev out)) = set (map createdAt (sort_key createdAt xs))"
    using set_eq by simp
  ultimately have "map createdAt (rev out) = map createdAt (sort_key createdAt xs)"
    by (rule sorted_distinct_set_unique)
  moreover have "inj_on createdAt (set (rev out) \<union> set (sort_key createdAt xs))"
    using dist set_eq by (simp add: distinct_map)
  ultimately have "rev out = sort_key createdAt xs"
    by (simp add: inj_on_map_eq_map)
  then show ?thesis
    by (metis rev_rev_ident)
qed

lemma sort_distinct_times:
  assumes "distinct (map createdAt xs)"
  shows "sort_createdAt_desc e xs = rev (sort_key createdAt xs)"
  using mset_sort_createdAt_desc sorted_sort_createdAt_desc assms
  by (rule newest_first_unique)

lemma sort_three:
  assumes "createdAt A < createdAt B" and "createdAt B < createdAt C"
  shows "sort_createdAt_desc e [A, B, C] = [C, B, A]"
proof -
  from assms have "distinct (map createdAt [A, B, C])"
    by auto
  then have "sort_createdAt_desc e [A, B, C] = rev (sort_key createdAt [A, B, C])"
    by (rule sort_distinct_times)
  with assms show ?thesis
    by simp
qed

lemma example_sorted:
  "sort_createdAt_desc e (songs example_catalogue) = [example_song3, example_song2, example_song]"
  unfolding example_catalogue_def db.simps
  by (rule sort_three) (simp_all add: example_song_def example_song2_def example_song3_def)

text \<open>
  Claim C4, as the route has it. For a non-empty search string made of printable
  characters none of which is a syntax character of regular expressions, and with the
  driver up, the reply is 200 with exactly the songs that have the string as a
  case-insensitive substring of the title, the artist or the album, newest first.
\<close>

theorem search_is_substring_match:
  assumes "s \<noteq> []" and "\<forall>c\<in>set s. literal_char c" and "\<not> db_error e 0"
  shows "get_songs e d (Some s) =
           reply 200 (SongsJson (sort_createdAt_desc e (filter (spec_matches s) (songs d)))) d [] \<and>
         set (sort_createdAt_desc e (filter (spec_matches s) (songs d))) =
           {x \<in> set (songs d). spec_matches s x}"
  using assms(3)
  by (simp add: get_songs_def songs_filter_literal [OF assms(1,2)] set_sort_createdAt_desc)

text \<open>
  C4 on the example of the specification: \<open>blue\<close> finds the song titled Blue Moon and
  the song by the Blue Note Quartet.
\<close>

theorem search_is_substring_match_witness:
  "get_songs example_env example_catalogue (Some ''blue'') =
     reply 200 (SongsJson [example_song3, example_song]) example_catalogue []"
proof -
  have ne: "''blue'' \<noteq> []" by simp
  have lit: "\<forall>c\<in>set ''blue''. literal_char c"
    by (simp add: literal_char_def syntax_char_def)
  have "filter (spec_matches ''blue'') (songs example_catalogue) = [example_song, example_song3]"
    by code_simp
  moreover have "sort_createdAt_desc example_env [example_song, example_song3] =
      [example_song3, example_song]"
    by (simp add: sort_createdAt_desc_def example_env_def example_song_def example_song3_def)
  ultimately show ?thesis
    using search_is_substring_match [OF ne lit example_up(1), of example_catalogue] by simp
qed

text \<open>
  Claim C4 as stated fails for a search string with syntax characters: the two
  characters backslash and dot are not a substring of any field of the song titled
  \<open>Mr. Night\<close>, and the search returns that song, since the pattern stands for a dot.
\<close>

theorem regexp_search_counterexample:
  "\<not> spec_matches [CHR 0x5C, CHR ''.''] example_song2 \<and>
   get_songs example_env example_catalogue (Some [CHR 0x5C, CHR ''.'']) =
     reply 200 (SongsJson [example_song2]) example_catalogue []"
proof -
  have "\<not> spec_matches [CHR 0x5C, CHR ''.''] example_song2"
    by code_simp
  moreover have "songs_filter example_env (Some [CHR 0x5C, CHR ''.'']) =
      Inr (\<lambda>s. match_anywhere ''.'' (title s) \<or> match_anywhere ''.'' (artist s) \<or>
                match_anywhere ''.'' (album s))"
    by (simp add: songs_filter_def truthy_def RegExp_new_def literal_char_def syntax_char_def)
  moreover have "filter (\<lambda>s. match_anywhere ''.'' (title s) \<or>
      match_anywhere ''.'' (artist s) \<or> match_anywhere ''.'' (album s)) (songs example_catalogue) =
      [example_song2]"
    by code_simp
  moreover have "sort_createdAt_desc example_env [example_song2] = [example_song2]"
    by (simp add: sort_createdAt_desc_def)
  ultimately show ?thesis
    by (simp add: get_songs_def example_up)
qed

text \<open>
  Claim C5, as the route has it. Whenever the filter can be built and the driver is up,
  the list route answers 200 with the songs that pass the filter, each as often as the
  collection holds it, by creation time, newest first. The order of songs of equal
  creation time is not fixed by the route. When the creation times of the songs that
  pass are distinct the list is determined: it is the reverse of the list by ascending
  time; so the songs A, B, C inserted in this order at increasing times are listed as
  C, B, A.
\<close>

theorem list_newest_first:
  assumes f: "songs_filter e q = Inr f" and up: "\<not> db_error e 0"
  shows "\<exists>out. get_songs e d q = reply 200 (SongsJson out) d [] \<and>
           mset out = mset (filter f (songs d)) \<and>
           sorted_wrt (\<lambda>a b. createdAt b \<le> createdAt a) out \<and>
           (distinct (map createdAt (filter f (songs d))) \<longrightarrow>
              out = rev (sort_key createdAt (filter f (songs d)))) \<and>
           (\<forall>A B C. filter f (songs d) = [A, B, C] \<and> createdAt A < createdAt B \<and>
                createdAt B < createdAt C \<longrightarrow> out = [C, B, A])"
proof -
  let ?out = "sort_createdAt_desc e (filter f (songs d))"
  have run: "get_songs e d q = reply 200 (SongsJson ?out) d []"
    using f up by (simp add: get_songs_def)
  have perm: "mset ?out = mset (filter f (songs d))"
    by (rule mset_sort_createdAt_desc)
  have desc: "sorted_wrt (\<lambda>a b. createdAt b \<le> createdAt a) ?out"
    by (rule sorted_sort_createdAt_desc)
  have unique: "?out = rev (sort_key createdAt (filter f (songs d)))"
    if "distinct (map createdAt (filter f (songs d)))"
    using that by (rule sort_distinct_times)
  have three: "?out = [C, B, A]"
    if "filter f (songs d) = [A, B, C]" "createdAt A < createdAt B" "createdAt B < createdAt C"
    for A B C
    using that by (simp add: sort_three)
  from run perm desc unique three show ?thesis
    by blast
qed

text \<open>C5 on the catalogue of three songs, listed with no search.\<close>

theorem list_newest_first_witness:
  "songs_filter example_env None = Inr (\<lambda>s. True) \<and>
   get_songs example_env example_catalogue None =
     reply 200 (SongsJson [example_song3, example_song2, example_song]) example_catalogue []"
proof -
  have f: "songs_filter example_env None = Inr (\<lambda>s. True)"
    by (simp add: songs_filter_def truthy_def)
  have order: "filter (\<lambda>s. True) (songs example_catalogue) =
        [example_song, example_song2, example_song3]"
      "createdAt example_song < createdAt example_song2"
      "createdAt example_song2 < createdAt example_song3"
    by (simp_all add: example_catalogue_def example_song_def example_song2_def example_song3_def)
  from list_newest_first [OF f example_up(1), of example_catalogue] order f show ?thesis
    by auto
qed

text \<open>
  Claim C5 as stated fails in its tie clause: of two songs created in the same
  millisecond, the one inserted first is listed second when the server ranks it so.
\<close>

theorem tie_order_counterexample:
  "songs example_ties = [example_song, example_twin] \<and>
   createdAt example_song = createdAt example_twin \<and>
   get_songs example_ranking example_ties None =
     reply 200 (SongsJson [example_twin, example_song]) example_ties []"
  by (simp add: get_songs_def songs_filter_def truthy_def sort_createdAt_desc_def
      example_ranking_def example_env_def example_ties_def example_song_def example_twin_def)

text \<open>
  Claim C10. A list request whose search parameter is the empty string has the outcome
  of the request with no search parameter; with the driver up that is 200 with all
  songs of the collection, newest first.
\<close>

theorem empty_search_lists_all:
  "get_songs e d (Some []) = get_songs e d None \<and>
   (\<not> db_error e 0 \<longrightarrow>
      get_songs e d (Some []) = reply 200 (SongsJson (sort_createdAt_desc e (songs d))) d [] \<and>
      mset (sort_createdAt_desc e (songs d)) = mset (songs d) \<and>
      sorted_wrt (\<lambda>a b. createdAt b \<le> createdAt a) (sort_createdAt_desc e (songs d)))"
  by (simp add: get_songs_def songs_filter_def truthy_def sorted_sort_createdAt_desc
      mset_sort_createdAt_desc)

text \<open>C10 on the catalogue of three songs.\<close>

theorem empty_search_lists_all_witness:
  "\<not> db_error example_env 0 \<and>
   get_songs example_env example_catalogue (Some []) =
     reply 200 (SongsJson [example_song3, example_song2, example_song]) example_catalogue []"
  using empty_search_lists_all [of example_env example_catalogue] example_up(1)
    example_sorted [of example_env]
  by auto

subsection \<open>Streaming\<close>

lemma findById_None: "findById xs i = None \<longleftrightarrow> (\<forall>s\<in>set xs. song_id s \<noteq> ObjectId_cast i)"
  by (auto simp: findById_def find_None_iff)

lemma findById_Some:
  assumes "findById xs i = Some s"
  shows "s \<in> set xs" and "song_id s = ObjectId_cast i"
  using assms by (auto simp: findById_def find_Some_iff)

text \<open>
  Claim C8. A path id that \<open>ObjectId.isValid\<close> refuses is answered with 400. With a valid
  id and the driver up, when no song has that id or the song found has no \<open>fileId\<close>,
  the reply is 404 and no byte of a stream was written.
\<close>

theorem stream_rejections:
  "(\<not> ObjectId_isValid i \<longrightarrow>
      statusCode (res (get_audio e d i)) = 400 \<and> written (res (get_audio e d i)) = []) \<and>
   (ObjectId_isValid i \<and> \<not> db_error e 0 \<and>
    ((\<forall>s\<in>set (songs d). song_id s \<noteq> ObjectId_cast i) \<or>
     (\<exists>s. findById (songs d) i = Some s \<and> fileId s = None)) \<longrightarrow>
      statusCode (res (get_audio e d i)) = 404 \<and> written (res (get_audio e d i)) = [] \<and>
      json_body (res (get_audio e d i)) = Some (ErrorJson ''Song or audio file not found''))"
proof -
  have "statusCode (res (get_audio e d i)) = 400 \<and> written (res (get_audio e d i)) = []"
    if "\<not> ObjectId_isValid i"
    using that by (simp add: get_audio_def)
  moreover have "statusCode (res (get_audio e d i)) = 404 \<and> written (res (get_audio e d i)) = [] \<and>
      json_body (res (get_audio e d i)) = Some (ErrorJson ''Song or audio file not found'')"
    if "ObjectId_isValid i" "\<not> db_error e 0" "findById (songs d) i = None"
    using that by (simp add: get_audio_def)
  moreover have "statusCode (res (get_audio e d i)) = 404 \<and> written (res (get_audio e d i)) = [] \<and>
      json_body (res (get_audio e d i)) = Some (ErrorJson ''Song or audio file not found'')"
    if "ObjectId_isValid i" "\<not> db_error e 0" "findById (songs d) i = Some s" "fileId s = None" for s
    using that by (simp add: get_audio_def)
  ultimately show ?thesis
    unfolding findById_None [symmetric] by blast
qed

text \<open>C8 on the id \<open>42\<close>, on an id no song has, and on the song without a file.\<close>

theorem stream_rejections_witness:
  "\<not> ObjectId_isValid ''42'' \<and>
   statusCode (res (get_audio example_env example_catalogue ''42'')) = 400 \<and>
   findById (songs example_catalogue) ''song00000009'' = None \<and>
   statusCode (res (get_audio example_env example_catalogue ''song00000009'')) = 404 \<and>
   fileId example_song3 = None \<and>
   statusCode (res (get_audio example_env example_catalogue ''song00000004'')) = 404"
proof -
  have up: "\<not> db_error example_env 0" by (simp add: example_env_def)
  have absent: "\<forall>s\<in>set (songs example_catalogue). song_id s \<noteq> ObjectId_cast ''song00000009''"
    by (simp add: example_ids example_catalogue_def example_song_def example_song2_def
        example_song3_def)
  have nofile: "fileId example_song3 = None" by (simp add: example_song3_def)
  have "statusCode (res (get_audio example_env example_catalogue ''42'')) = 400"
    using stream_rejections [of "''42''" example_env example_catalogue] example_ids(5) by blast
  moreover have "statusCode (res (get_audio example_env example_catalogue ''song00000009'')) = 404"
    using stream_rejections [of "''song00000009''" example_env example_catalogue] example_ids(1)
      up absent by blast
  moreover have "statusCode (res (get_audio example_env example_catalogue ''song00000004'')) = 404"
    using stream_rejections [of "''song00000004''" example_env example_catalogue] example_ids(2)
      up example_findById(1) nofile by blast
  ultimately show ?thesis
    using example_ids(5) absent nofile by (simp add: findById_None)
qed


lemma on_event_sent:
  assumes "headersSent r"
  shows "headersSent (fst (on_event ev (r, lg)))"
    and "statusCode (fst (on_event ev (r, lg))) = statusCode r"
    and "json_body (fst (on_event ev (r, lg))) = json_body r"
  using assms by (cases ev; simp)+

lemma pipe_Cons: "pipe (ev # evs) start = pipe evs (on_event ev start)"
  by (simp add: pipe_def)

lemma pipe_Nil: "pipe [] start = start"
  by (simp add: pipe_def)

lemma pipe_append: "pipe (evs @ evs') start = pipe evs' (pipe evs start)"
  by (simp add: pipe_def)

lemma pipe_sent:
  assumes "headersSent r"
  shows "statusCode (fst (pipe evs (r, lg))) = statusCode r \<and>
         json_body (fst (pipe evs (r, lg))) = json_body r"
  using assms
proof (induction evs arbitrary: r lg)
  case Nil
  show ?case by (simp add: pipe_Nil)
next
  case (Cons ev evs)
  obtain r' lg' where step: "on_event ev (r, lg) = (r', lg')"
    by (cases "on_event ev (r, lg)")
  with on_event_sent [OF Cons.prems, of ev lg]
  have "headersSent r'" "statusCode r' = statusCode r" "json_body r' = json_body r"
    by simp_all
  with Cons.IH [of r' lg'] step show ?case
    by (simp add: pipe_Cons)
qed

lemma pipe_data:
  assumes "\<not> finished r"
  shows "pipe (map Data cs) (r, lg) =
           (if cs = [] then (r, lg) else (r\<lparr>headersSent := True, written := written r @ cs\<rparr>, lg))"
  using assms
proof (induction cs arbitrary: r)
  case Nil
  show ?case by (simp add: pipe_Nil)
next
  case (Cons c cs)
  have "pipe (map Data (c # cs)) (r, lg) =
        pipe (map Data cs) (r\<lparr>headersSent := True, written := written r @ [c]\<rparr>, lg)"
    using Cons.prems by (simp add: pipe_Cons)
  also have "\<dots> = (if cs = [] then (r\<lparr>headersSent := True, written := written r @ [c]\<rparr>, lg)
      else (r\<lparr>headersSent := True, written := written r @ [c]\<rparr>
              \<lparr>headersSent := True, written := written (r\<lparr>headersSent := True,
                 written := written r @ [c]\<rparr>) @ cs\<rparr>, lg))"
    using Cons.prems by (subst Cons.IH) simp_all
  finally show ?case by simp
qed

lemma pipe_error_first:
  "fst (pipe (Error err # evs) (new_response, [])) =
     status_json new_response 404 (ErrorJson ''Audio file not found'')"
proof -
  have fin: "fst (pipe evs (r, lg)) = r" if "finished r" "headersSent r" for r lg
    using that
  proof (induction evs arbitrary: lg)
    case Nil
    show ?case by (simp add: pipe_Nil)
  next
    case (Cons ev evs)
    have "\<exists>lg'. on_event ev (r, lg) = (r, lg')"
      using Cons.prems by (cases ev) simp_all
    then obtain lg' where "on_event ev (r, lg) = (r, lg')" ..
    with Cons.IH [OF Cons.prems] show ?case
      by (simp add: pipe_Cons)
  qed
  show ?thesis
    by (simp add: pipe_Cons new_response_def fin status_json_def)
qed

lemma pipe_error_later:
  assumes "cs \<noteq> []"
  shows "fst (pipe (map Data cs @ [Error err]) (new_response, [])) =
           new_response\<lparr>headersSent := True, written := cs\<rparr>"
  using assms
  by (simp add: pipe_append pipe_data pipe_Cons pipe_Nil new_response_def)

lemma pipe_error_only_log:
  "snd (pipe [Error err] (new_response, [])) = [''Streaming error:'']"
  by (simp add: pipe_Cons pipe_Nil new_response_def)

lemma pipe_error_later_log:
  assumes "cs \<noteq> []"
  shows "snd (pipe (map Data cs @ [Error err]) (new_response, [])) = [''Streaming error:'']"
  using assms
  by (simp add: pipe_append pipe_data pipe_Cons pipe_Nil new_response_def)

text \<open>
  Claim C9, as the route has it. For a song with a file reference: when the file is not
  in the bucket, or reading breaks at the first chunk, nothing was sent and the reply is
  404; when reading breaks after some chunks were written, the status stays the 200
  that went out with the head, no JSON body is sent, the chunks read before the break
  are all that is written, and the response is not ended by the route. In both cases
  the failure is written to the console. In general, once the head is sent no event of
  the source changes the status code.
\<close>

theorem stream_failure_handling:
  assumes valid: "ObjectId_isValid i" and up: "\<not> db_error e 0"
      and found: "findById (songs d) i = Some s" and stored: "fileId s = Some fid"
  shows "(uploads d fid = None \<or> (\<exists>cs. uploads d fid = Some cs \<and> cs \<noteq> [] \<and> read_error e = Some 0) \<longrightarrow>
            statusCode (res (get_audio e d i)) = 404 \<and>
            json_body (res (get_audio e d i)) = Some (ErrorJson ''Audio file not found'') \<and>
            written (res (get_audio e d i)) = [] \<and> finished (res (get_audio e d i)) \<and>
            console (get_audio e d i) = [''Streaming error:'']) \<and>
         (\<forall>cs n. uploads d fid = Some cs \<and> read_error e = Some n \<and> 0 < n \<and> n < length cs \<longrightarrow>
            statusCode (res (get_audio e d i)) = 200 \<and>
            json_body (res (get_audio e d i)) = None \<and>
            written (res (get_audio e d i)) = take n cs \<and> \<not> finished (res (get_audio e d i)) \<and>
            console (get_audio e d i) = [''Streaming error:'']) \<and>
         (\<forall>r lg evs. headersSent r \<longrightarrow>
            statusCode (fst (pipe evs (r, lg))) = statusCode r \<and>
            json_body (fst (pipe evs (r, lg))) = json_body r)"
proof -
  have run: "res (get_audio e d i) = fst (pipe (openDownloadStream e d fid) (new_response, []))"
    using valid up found stored by (simp add: get_audio_def split: prod.splits)
  have log: "console (get_audio e d i) = snd (pipe (openDownloadStream e d fid) (new_response, []))"
    using valid up found stored by (simp add: get_audio_def split: prod.splits)
  have missing_log: "console (get_audio e d i) = [''Streaming error:'']"
    if "uploads d fid = None"
    using that by (simp add: log openDownloadStream_def pipe_error_only_log)
  have first_log: "console (get_audio e d i) = [''Streaming error:'']"
    if "uploads d fid = Some cs" "cs \<noteq> []" "read_error e = Some 0" for cs
    using that by (simp add: log openDownloadStream_def pipe_error_only_log)
  have later_log: "console (get_audio e d i) = [''Streaming error:'']"
    if "uploads d fid = Some cs" "read_error e = Some n" "0 < n" "n < length cs" for cs n
  proof -
    from that have "take n cs \<noteq> []" by auto
    then show ?thesis
      using that by (simp add: log openDownloadStream_def pipe_error_later_log)
  qed
  have missing: "res (get_audio e d i) = status_json new_response 404 (ErrorJson ''Audio file not found'')"
    if "uploads d fid = None"
    using that by (simp add: run openDownloadStream_def pipe_error_first)
  have first: "res (get_audio e d i) = status_json new_response 404 (ErrorJson ''Audio file not found'')"
    if "uploads d fid = Some cs" "cs \<noteq> []" "read_error e = Some 0" for cs
    using that by (simp add: run openDownloadStream_def pipe_error_first)
  have later: "res (get_audio e d i) = new_response\<lparr>headersSent := True, written := take n cs\<rparr>"
    if "uploads d fid = Some cs" "read_error e = Some n" "0 < n" "n < length cs" for cs n
  proof -
    from that have "take n cs \<noteq> []" by auto
    then show ?thesis
      using that by (simp add: run openDownloadStream_def pipe_error_later)
  qed
  have a: "statusCode (res (get_audio e d i)) = 404 \<and>
            json_body (res (get_audio e d i)) = Some (ErrorJson ''Audio file not found'') \<and>
            written (res (get_audio e d i)) = [] \<and> finished (res (get_audio e d i)) \<and>
            console (get_audio e d i) = [''Streaming error:'']"
    if "uploads d fid = None \<or> (\<exists>cs. uploads d fid = Some cs \<and> cs \<noteq> [] \<and> read_error e = Some 0)"
  proof -
    from that missing first
    have "res (get_audio e d i) = status_json new_response 404 (ErrorJson ''Audio file not found'')"
      by blast
    moreover from that missing_log first_log
    have "console (get_audio e d i) = [''Streaming error:'']"
      by blast
    ultimately show ?thesis by (simp add: status_json_def new_response_def)
  qed
  have b: "statusCode (res (get_audio e d i)) = 200 \<and>
            json_body (res (get_audio e d i)) = None \<and>
            written (res (get_audio e d i)) = take n cs \<and> \<not> finished (res (get_audio e d i)) \<and>
            console (get_audio e d i) = [''Streaming error:'']"
    if "uploads d fid = Some cs \<and> read_error e = Some n \<and> 0 < n \<and> n < length cs" for cs n
    using later [of cs n] later_log [of cs n] that by (simp add: new_response_def)
  from a b pipe_sent show ?thesis
    by blast
qed

lemma example_stream:
  "ObjectId_isValid ''song00000001''" "\<not> db_error (example_env\<lparr>read_error := Some k\<rparr>) 0"
  "findById (songs example_catalogue) ''song00000001'' = Some example_song"
  "fileId example_song = Some ''file00000001''"
  "uploads example_catalogue ''file00000001'' = Some [''ID3'', ''data'']"
proof -
  show "ObjectId_isValid ''song00000001''" by (rule example_ids)
  show "\<not> db_error (example_env\<lparr>read_error := Some k\<rparr>) 0" by (simp add: example_up)
  show "findById (songs example_catalogue) ''song00000001'' = Some example_song"
    by (rule example_findById)
  show "fileId example_song = Some ''file00000001''" by (simp add: example_song_def)
  show "uploads example_catalogue ''file00000001'' = Some [''ID3'', ''data'']"
    by (simp add: example_catalogue_def)
qed

text \<open>C9 on the stored file of two chunks, with the read breaking at chunk 0 and at chunk 1.\<close>

theorem stream_failure_handling_witness:
  "statusCode (res (get_audio (example_env\<lparr>read_error := Some 0\<rparr>) example_catalogue
      ''song00000001'')) = 404 \<and>
   written (res (get_audio (example_env\<lparr>read_error := Some 0\<rparr>) example_catalogue
      ''song00000001'')) = [] \<and>
   statusCode (res (get_audio (example_env\<lparr>read_error := Some 1\<rparr>) example_catalogue
      ''song00000001'')) = 200 \<and>
   written (res (get_audio (example_env\<lparr>read_error := Some 1\<rparr>) example_catalogue
      ''song00000001'')) = [''ID3'']"
proof -
  have zero: "\<exists>cs. uploads example_catalogue ''file00000001'' = Some cs \<and> cs \<noteq> [] \<and>
      read_error (example_env\<lparr>read_error := Some 0\<rparr>) = Some 0"
    by (simp add: example_stream)
  have one: "uploads example_catalogue ''file00000001'' = Some [''ID3'', ''data''] \<and>
      read_error (example_env\<lparr>read_error := Some 1\<rparr>) = Some 1 \<and> (0::nat) < 1 \<and>
      1 < length [''ID3'', ''data'']"
    by (simp add: example_stream)
  have sent: "headersSent (new_response\<lparr>headersSent := True\<rparr>)"
    by simp
  from stream_failure_handling [OF example_stream(1-4), of 0] zero
  have "statusCode (res (get_audio (example_env\<lparr>read_error := Some 0\<rparr>) example_catalogue
      ''song00000001'')) = 404 \<and>
    written (res (get_audio (example_env\<lparr>read_error := Some 0\<rparr>) example_catalogue
      ''song00000001'')) = []"
    by blast
  moreover
  from stream_failure_handling [OF example_stream(1-4), of 1] one
  have "statusCode (res (get_audio (example_env\<lparr>read_error := Some 1\<rparr>) example_catalogue
      ''song00000001'')) = 200 \<and>
    written (res (get_audio (example_env\<lparr>read_error := Some 1\<rparr>) example_catalogue
      ''song00000001'')) = take 1 [''ID3'', ''data'']"
    by blast
  ultimately show ?thesis
    by simp
qed

text \<open>
  Claim C9 as stated fails in its last part: the read breaks after the first chunk was
  written, and the response is left open, not ended.
\<close>

theorem stream_not_closed_counterexample:
  "written (res (get_audio (example_env\<lparr>read_error := Some 1\<rparr>) example_catalogue
      ''song00000001'')) = [''ID3''] \<and>
   \<not> finished (res (get_audio (example_env\<lparr>read_error := Some 1\<rparr>) example_catalogue
      ''song00000001''))"
  by (simp add: get_audio_def example_stream example_up openDownloadStream_def pipe_def
      new_response_def)

subsection \<open>Deleting\<close>

lemma remove1_distinct_ids:
  assumes "distinct (map song_id xs)" and "s \<in> set xs"
  shows "\<forall>x\<in>set (remove1 s xs). song_id x \<noteq> song_id s"
proof
  fix x
  assume x: "x \<in> set (remove1 s xs)"
  from assms(1) have d: "distinct xs" and inj: "inj_on song_id (set xs)"
    by (simp_all add: distinct_map)
  from x d have "x \<in> set xs" "x \<noteq> s"
    by simp_all
  with inj assms(2) show "song_id x \<noteq> song_id s"
    by (auto dest: inj_onD)
qed

text \<open>
  Claim C6. For a valid id of a stored song and with the driver up, the reply is 200 and
  the row found is removed from the collection (with distinct ids, no row of that id
  is left), also when deleting the file from the bucket fails: then the failure is
  written to the console and the bucket is as before.
\<close>

theorem delete_song_best_effort:
  assumes valid: "ObjectId_isValid i" and up: "\<not> db_error e 0" "\<not> db_error e 1"
      and found: "findById (songs d) i = Some s"
  shows "statusCode (res (delete_song e d i)) = 200 \<and>
         json_body (res (delete_song e d i)) = Some (MessageJson ''Song deleted successfully'') \<and>
         songs (db_after (delete_song e d i)) = remove1 s (songs d) \<and>
         (distinct (map song_id (songs d)) \<longrightarrow>
            (\<forall>x\<in>set (songs (db_after (delete_song e d i))). song_id x \<noteq> song_id s)) \<and>
         (\<forall>fid err. fileId s = Some fid \<and> gfs_delete e d fid = Inl err \<longrightarrow>
            ''Error deleting file from GridFS:'' \<in> set (console (delete_song e d i)) \<and>
            uploads (db_after (delete_song e d i)) = uploads d)"
proof -
  have row: "findByIdAndDelete (songs d) i = remove1 s (songs d)"
    using found by (simp add: findByIdAndDelete_def)
  have main: "statusCode (res (delete_song e d i)) = 200 \<and>
         json_body (res (delete_song e d i)) = Some (MessageJson ''Song deleted successfully'') \<and>
         songs (db_after (delete_song e d i)) = remove1 s (songs d)"
  proof (cases "fileId s")
    case None
    then show ?thesis
      using valid up found row by (simp add: delete_song_def)
  next
    case (Some fid)
    show ?thesis
    proof (cases "gfs_delete e d fid")
      case (Inl err)
      then show ?thesis
        using valid up found row Some by (simp add: delete_song_def)
    next
      case (Inr d1)
      then show ?thesis
        using valid up found row Some gfs_delete_songs [OF Inr] by (simp add: delete_song_def)
    qed
  qed
  have logged: "''Error deleting file from GridFS:'' \<in> set (console (delete_song e d i)) \<and>
            uploads (db_after (delete_song e d i)) = uploads d"
    if "fileId s = Some fid \<and> gfs_delete e d fid = Inl err" for fid err
    using that valid up found by (simp add: delete_song_def)
  from main logged remove1_distinct_ids [of "songs d" s] findById_Some(1) [OF found]
  show ?thesis
    by auto
qed

lemma example_delete:
  "gfs_delete example_env example_catalogue ''file00000003'' = Inl FileNotFound"
  "fileId example_song2 = Some ''file00000003''"
  by (simp_all add: example_env_def gfs_delete_def example_catalogue_def example_song2_def)


text \<open>C6 on the song whose file is no longer in the bucket.\<close>

theorem delete_song_best_effort_witness:
  "gfs_delete example_env example_catalogue ''file00000003'' = Inl FileNotFound \<and>
   statusCode (res (delete_song example_env example_catalogue ''song00000003'')) = 200 \<and>
   songs (db_after (delete_song example_env example_catalogue ''song00000003'')) =
     [example_song, example_song3] \<and>
   ''Error deleting file from GridFS:'' \<in>
     set (console (delete_song example_env example_catalogue ''song00000003''))"
proof -
  have "remove1 example_song2 (songs example_catalogue) = [example_song, example_song3]"
    by (simp add: example_catalogue_def example_song_def example_song2_def)
  with delete_song_best_effort [OF example_ids(3) example_up example_findById(2)]
    example_delete
  show ?thesis
    by auto
qed

end
